theory Spec2Isabelle
  imports Complex_Main "HOL-Library.Multiset"
begin

section \<open>The windowed aggregation of MultiModel.py\<close>

text \<open>
  The development follows \<^verbatim>\<open>opendc-analyze/src/main/python/models/MultiModel.py\<close>.
  Python integers are \<^typ>\<open>int\<close>. The numeric cells of a table and the window means
  are numpy \<^verbatim>\<open>float64\<close> values in the program; here they are reals, and NaN and the
  infinities are outside the model. The rounding of \<^verbatim>\<open>np.mean\<close> and of the product in
  \<^verbatim>\<open>get_y_lim\<close> is left out. The sum that pandas takes over the rows of a group is not
  fixed to exact addition: it is a parameter of the aggregation, applied to the cells of
  the group in row order. Every exception the program can raise is a value of \<open>error\<close>,
  and a function that can raise returns \<open>error + 'a\<close>.
\<close>

subsection \<open>Exceptions\<close>

datatype error =
    ValueError_invalid_metric
      \<comment> \<open>line 52: \<^verbatim>\<open>raise ValueError("Invalid metric. ...")\<close>\<close>
  | ValueError_invalid_metric_folder
      \<comment> \<open>line 82: the \<^verbatim>\<open>else\<close> branch of \<^verbatim>\<open>set_output_folder\<close>\<close>
  | ValueError_range_arg3_zero
      \<comment> \<open>\<^verbatim>\<open>range(a, b, 0)\<close>: "range() arg 3 must not be zero"\<close>
  | ValueError_max_empty
      \<comment> \<open>\<^verbatim>\<open>max([])\<close>: "max() arg is an empty sequence"\<close>
  | KeyError string
      \<comment> \<open>pandas: a column that is not in the frame\<close>
  | TypeError string
      \<comment> \<open>an operation on \<^verbatim>\<open>None\<close>\<close>
  | OSError string
      \<comment> \<open>\<^verbatim>\<open>open\<close>, \<^verbatim>\<open>os.listdir\<close>, \<^verbatim>\<open>pd.read_parquet\<close> on a path that cannot be used\<close>

text \<open>
  The exceptions that a \<^verbatim>\<open>raise\<close> statement of \<^verbatim>\<open>MultiModel.py\<close> produces (lines 52
  and 82). Every other exception comes out of a builtin or a library call that the
  program neither guards nor catches.
\<close>

fun raised_by_program :: "error \<Rightarrow> bool" where
  "raised_by_program ValueError_invalid_metric = True"
| "raised_by_program ValueError_invalid_metric_folder = True"
| "raised_by_program ValueError_range_arg3_zero = False"
| "raised_by_program ValueError_max_empty = False"
| "raised_by_program (KeyError _) = False"
| "raised_by_program (TypeError _) = False"
| "raised_by_program (OSError _) = False"

subsection \<open>The builtins \<^verbatim>\<open>range\<close>, slicing, \<^verbatim>\<open>np.mean\<close>\<close>

text \<open>
  The number of elements of \<^verbatim>\<open>range(start, stop, step)\<close> for a step that is not zero,
  as CPython computes it: for a negative step the bounds are swapped and the step negated.
\<close>

definition range_length :: "int \<Rightarrow> int \<Rightarrow> int \<Rightarrow> nat" where
  "range_length start stop step =
     (let lo = (if 0 < step then start else stop);
          hi = (if 0 < step then stop else start);
          st = (if 0 < step then step else - step)
      in if hi \<le> lo then 0 else nat ((hi - lo - 1) div st + 1))"

definition py_range :: "int \<Rightarrow> int \<Rightarrow> int \<Rightarrow> error + int list" where
  "py_range start stop step =
     (if step = 0 then Inl ValueError_range_arg3_zero
      else Inr (map (\<lambda>k. start + int k * step) [0..<range_length start stop step]))"

text \<open>
  A slice bound of \<^verbatim>\<open>a[lo:hi]\<close> on a sequence of length \<open>n\<close>: a negative bound counts
  from the end, and every bound is clipped to \<open>0..n\<close>.
\<close>

definition slice_bound :: "int \<Rightarrow> int \<Rightarrow> nat" where
  "slice_bound n k = (if k < 0 then nat (max (k + n) 0) else nat (min k n))"

definition py_slice :: "'a list \<Rightarrow> int \<Rightarrow> int \<Rightarrow> 'a list" where
  "py_slice xs lo hi =
     (let n = int (length xs); l = slice_bound n lo; h = slice_bound n hi
      in take (h - l) (drop l xs))"

text \<open>
  \<^verbatim>\<open>np.mean\<close> of a one-dimensional array: the sum of the elements over their number.
  On an empty array numpy returns NaN (with a warning), which a real cannot show; lemma
  \<open>chunk_nonempty\<close> below proves that \<open>mean_of_chunks\<close> never passes an empty chunk.
\<close>

definition np_mean :: "real list \<Rightarrow> real" where
  "np_mean xs = sum_list xs / real (length xs)"

subsection \<open>\<^verbatim>\<open>mean_of_chunks\<close> (lines 176-177)\<close>

text \<open>
  \<^verbatim>\<open>[np.mean(np_array[i:i + window_size]) for i in range(0, len(np_array), window_size)]\<close>
\<close>

definition chunk :: "real list \<Rightarrow> int \<Rightarrow> int \<Rightarrow> real list" where
  "chunk np_array window_size i = py_slice np_array i (i + window_size)"

definition mean_of_chunks :: "real list \<Rightarrow> int \<Rightarrow> error + real list" where
  "mean_of_chunks np_array window_size =
     (case py_range 0 (int (length np_array)) window_size of
        Inl e \<Rightarrow> Inl e
      | Inr is \<Rightarrow> Inr (map (\<lambda>i. np_mean (chunk np_array window_size i)) is))"

subsection \<open>\<^verbatim>\<open>check_and_set_metric\<close> (lines 50-54) and the object's attributes\<close>

datatype column = NumCol "real list" | ObjCol "string list"

text \<open>
  A pandas \<^verbatim>\<open>DataFrame\<close>: named columns in order, each with the dtype of its cells
  (numeric, or object for strings such as host names). In a frame every column has
  as many cells as the frame has rows. A \<^verbatim>\<open>Series\<close> indexed by timestamps is the list
  of its (index, value) pairs.
\<close>

type_synonym dataframe = "(string \<times> column) list"
type_synonym series = "(real \<times> real) list"

text \<open>
  Modelled from the spec: the class \<^verbatim>\<open>Model\<close> of \<^verbatim>\<open>models/Model.py\<close> is not among the
  sources. \<^verbatim>\<open>Model(host=...)\<close> is given the table of one run and \<^verbatim>\<open>raw_model.host\<close>
  reads it back (the HostTable of the spec: the run's table as loaded, not changed
  after the load).
\<close>

record Model =
  host :: dataframe

record MultiModel =
  measure_unit :: "string option"
  metric :: "string option"
  raw_models :: "Model list"
  aggregated_models :: "series list"
  output_folder :: "string option"
  input_folder :: string
  window_size :: int
  aggregation_function :: string
  computed_data :: "real list list"

definition check_and_set_metric :: "MultiModel \<Rightarrow> string \<Rightarrow> error + MultiModel" where
  "check_and_set_metric self input_metric =
     (if input_metric \<notin> set [''power_draw'', ''carbon_emission'']
      then Inl ValueError_invalid_metric
      else Inr (self\<lparr>metric := Some input_metric,
                     measure_unit := Some (if input_metric = ''power_draw'' then ''W'' else ''gCO2'')\<rparr>))"

subsection \<open>Input and output\<close>

text \<open>
  The constants of the module \<^verbatim>\<open>utils\<close>, which is not among the sources, are parameters.
\<close>

record utils =
  RAW_OUTPUT_FOLDER_PATH :: string
  ENERGY_ANALYSIS_FOLDER_PATH :: string
  EMISSIONS_ANALYSIS_FOLDER_PATH :: string
  SIMULATION_ANALYSIS_FOLDER_NAME :: string
  ENERGY_ANALYSIS_FOLDER_NAME :: string
  EMISSIONS_ANALYSIS_FOLDER_NAME :: string

text \<open>
  What the file system answers: \<^verbatim>\<open>open(path, "a")\<close> (\<open>None\<close> when it succeeds),
  \<^verbatim>\<open>os.listdir\<close> and \<^verbatim>\<open>pd.read_parquet\<close>.
\<close>

record filesystem =
  fs_open_append :: "string \<Rightarrow> error option"
  fs_listdir :: "string \<Rightarrow> error + string list"
  fs_read_parquet :: "string \<Rightarrow> error + dataframe"

datatype io_event = Open_append string | Listdir string | Read_parquet string | Print string

text \<open>
  A computation with effects returns the input and output operations it has performed,
  in order, and then either the exception that ended it or its result.
\<close>

type_synonym 'a io = "io_event list \<times> (error + 'a)"

definition bind_io :: "'a io \<Rightarrow> ('a \<Rightarrow> 'b io) \<Rightarrow> 'b io" where
  "bind_io m f =
     (case m of
        (tr, Inl e) \<Rightarrow> (tr, Inl e)
      | (tr, Inr a) \<Rightarrow> (case f a of (tr', r) \<Rightarrow> (tr @ tr', r)))"

definition pure_io :: "error + 'a \<Rightarrow> 'a io" where
  "pure_io r = ([], r)"

subsection \<open>\<^verbatim>\<open>set_output_folder\<close> (lines 67-82)\<close>

definition touch :: "filesystem \<Rightarrow> string \<Rightarrow> MultiModel \<Rightarrow> MultiModel io" where
  "touch fs path self =
     ([Open_append path], case fs_open_append fs path of Some e \<Rightarrow> Inl e | None \<Rightarrow> Inr self)"

definition set_output_folder :: "utils \<Rightarrow> filesystem \<Rightarrow> MultiModel \<Rightarrow> MultiModel io" where
  "set_output_folder U fs self =
     (if metric self = Some ''power_draw'' then
        touch fs (SIMULATION_ANALYSIS_FOLDER_NAME U @ ''/'' @ ENERGY_ANALYSIS_FOLDER_NAME U
                    @ ''/analysis.txt'')
          (self\<lparr>output_folder := Some (ENERGY_ANALYSIS_FOLDER_PATH U)\<rparr>)
      else if metric self = Some ''carbon_emission'' then
        touch fs (SIMULATION_ANALYSIS_FOLDER_NAME U @ ''/'' @ EMISSIONS_ANALYSIS_FOLDER_NAME U
                    @ ''/analysis.txt'')
          (self\<lparr>output_folder := Some (EMISSIONS_ANALYSIS_FOLDER_PATH U)\<rparr>)
      else ([], Inl ValueError_invalid_metric_folder))"

subsection \<open>The aggregation of one run (lines 102-103)\<close>

text \<open>\<^verbatim>\<open>select_dtypes(include=[np.number])\<close> keeps the numeric columns, in order.\<close>

fun select_dtypes_number :: "dataframe \<Rightarrow> (string \<times> real list) list" where
  "select_dtypes_number [] = []"
| "select_dtypes_number ((name, NumCol xs) # df) = (name, xs) # select_dtypes_number df"
| "select_dtypes_number ((name, ObjCol _) # df) = select_dtypes_number df"

text \<open>
  \<^verbatim>\<open>groupby("timestamp")[metric].aggregate("sum")\<close> on the rows (timestamp, value):
  pandas sorts the group keys (\<^verbatim>\<open>sort=True\<close> is the default of \<^verbatim>\<open>groupby\<close>), so the
  result has one entry for each distinct timestamp, in ascending order. Its value is
  what pandas' sum returns on the cells of the rows of that group, which it visits in
  row order. That sum is library code: it is the parameter \<open>pandas_sum\<close>, from the
  cells of a group in row order to their sum. On \<^verbatim>\<open>float64\<close> cells pandas rounds after
  each addition, so its result can depend on the order of the cells; \<open>sum_list\<close> is the
  sum without rounding.
\<close>

definition groupby_sum :: "(real list \<Rightarrow> real) \<Rightarrow> real list \<Rightarrow> real list \<Rightarrow> series" where
  "groupby_sum pandas_sum ts vs =
     (let rows = zip ts vs
      in map (\<lambda>k. (k, pandas_sum (map snd (filter (\<lambda>r. fst r = k) rows))))
             (sort (remdups (map fst rows))))"

definition aggregate :: "(real list \<Rightarrow> real) \<Rightarrow> dataframe \<Rightarrow> string \<Rightarrow> error + series" where
  "aggregate pandas_sum df metric_name =
     (let numeric = select_dtypes_number df
      in case map_of numeric ''timestamp'' of
           None \<Rightarrow> Inl (KeyError ''timestamp'')
         | Some ts \<Rightarrow>
             (case map_of numeric metric_name of
                None \<Rightarrow> Inl (KeyError metric_name)
              | Some vs \<Rightarrow> Inr (groupby_sum pandas_sum ts vs)))"

subsection \<open>The sum of pandas on \<^verbatim>\<open>float64\<close> cells\<close>

text \<open>
  A real rounded to the nearest \<^verbatim>\<open>float64\<close>, with 53 significant bits and ties going
  to the even significand (IEEE 754, the default rounding). Overflow to infinity and
  the subnormal range are left out.
\<close>

definition round_half_even :: "real \<Rightarrow> int" where
  "round_half_even y =
     (let f = \<lfloor>y\<rfloor>; d = y - of_int f
      in if d < 1 / 2 then f else if 1 / 2 < d then f + 1 else if even f then f else f + 1)"

definition f64_round :: "real \<Rightarrow> real" where
  "f64_round x =
     (if x = 0 then 0
      else (let e = \<lfloor>log 2 \<bar>x\<bar>\<rfloor>; u = 2 powr of_int (e - 52)
            in u * of_int (round_half_even (x / u))))"

definition f64_add :: "real \<Rightarrow> real \<Rightarrow> real" where
  "f64_add x y = f64_round (x + y)"

definition f64_sub :: "real \<Rightarrow> real \<Rightarrow> real" where
  "f64_sub x y = f64_round (x - y)"

text \<open>
  The sum of a group in pandas (\<^verbatim>\<open>group_sum\<close> of \<^verbatim>\<open>pandas/_libs/groupby.pyx\<close>, library
  code): the cells are added in row order with Kahan's compensated summation,
  \<^verbatim>\<open>y = val - compensation; t = sumx + y; compensation = t - sumx - y; sumx = t\<close>,
  every operation rounded to \<^verbatim>\<open>float64\<close>.
\<close>

definition kahan_step :: "real \<times> real \<Rightarrow> real \<Rightarrow> real \<times> real" where
  "kahan_step acc val =
     (case acc of (sumx, compensation) \<Rightarrow>
        (let y = f64_sub val compensation;
             t = f64_add sumx y
         in (t, f64_sub (f64_sub t sumx) y)))"

definition group_sum_f64 :: "real list \<Rightarrow> real" where
  "group_sum_f64 cells = fst (foldl kahan_step (0, 0) cells)"

subsection \<open>\<^verbatim>\<open>init_models\<close> (lines 92-104)\<close>

fun init_models_loop ::
  "(real list \<Rightarrow> real) \<Rightarrow> filesystem \<Rightarrow> string list \<Rightarrow> MultiModel \<Rightarrow> MultiModel io" where
  "init_models_loop pandas_sum fs [] self = ([], Inr self)"
| "init_models_loop pandas_sum fs (simulation_folder # rest) self =
     (let path = ''./raw-output'' @ ''/'' @ simulation_folder @ ''/seed=0/host.parquet''
      in case fs_read_parquet fs path of
           Inl e \<Rightarrow> ([Read_parquet path], Inl e)
         | Inr df \<Rightarrow>
             (let raw_model = \<lparr>host = df\<rparr>;
                  self1 = self\<lparr>raw_models := raw_models self @ [raw_model]\<rparr>
              in case (case metric self1 of
                         None \<Rightarrow> Inl (KeyError ''None'')
                       | Some m \<Rightarrow> aggregate pandas_sum (host raw_model) m) of
                   Inl e \<Rightarrow> ([Read_parquet path], Inl e)
                 | Inr processed_raw_model \<Rightarrow>
                     (case init_models_loop pandas_sum fs rest
                             (self1\<lparr>aggregated_models :=
                                      aggregated_models self1 @ [processed_raw_model]\<rparr>) of
                        (tr, r) \<Rightarrow> (Read_parquet path # tr, r))))"

definition init_models ::
  "(real list \<Rightarrow> real) \<Rightarrow> filesystem \<Rightarrow> MultiModel \<Rightarrow> MultiModel io" where
  "init_models pandas_sum fs self =
     (case fs_listdir fs ''./raw-output'' of
        Inl e \<Rightarrow> ([Listdir ''./raw-output''], Inl e)
      | Inr folders \<Rightarrow>
          (case init_models_loop pandas_sum fs folders self of
             (tr, r) \<Rightarrow> (Listdir ''./raw-output'' # tr, r)))"

subsection \<open>\<^verbatim>\<open>compute_windowed_aggregation\<close> (lines 114-121)\<close>

fun windowed_loop :: "series list \<Rightarrow> MultiModel \<Rightarrow> error + MultiModel" where
  "windowed_loop [] self = Inr self"
| "windowed_loop (model # rest) self =
     (let numeric_values = map snd model
      in case mean_of_chunks numeric_values (window_size self) of
           Inl e \<Rightarrow> Inl e
         | Inr windowed_data \<Rightarrow>
             windowed_loop rest (self\<lparr>computed_data := computed_data self @ [windowed_data]\<rparr>))"

definition compute_windowed_aggregation :: "MultiModel \<Rightarrow> MultiModel io" where
  "compute_windowed_aggregation self =
     (case metric self of
        None \<Rightarrow> ([], Inl (TypeError ''str + None''))
      | Some m \<Rightarrow>
          ([Print (''Computing windowed aggregation for '' @ m)],
           windowed_loop (aggregated_models self) self))"

subsection \<open>The constructor (lines 23-41)\<close>

text \<open>Lines 25-32: the attributes as the constructor first sets them.\<close>

definition fresh_self :: "utils \<Rightarrow> int \<Rightarrow> MultiModel" where
  "fresh_self U window_size_arg =
     \<lparr>measure_unit = None, metric = None, raw_models = [],
      aggregated_models = [], output_folder = None,
      input_folder = RAW_OUTPUT_FOLDER_PATH U,
      window_size = window_size_arg,
      aggregation_function = ''median'',
      computed_data = []\<rparr>"

text \<open>
  Lines 35-41. The argument \<^verbatim>\<open>aggregation_function\<close> is not read: line 32 stores the
  literal \<^verbatim>\<open>"median"\<close>. When a call raises, the exception leaves the constructor and
  the caller gets no object. Besides the constants of \<^verbatim>\<open>utils\<close> and the file system, the
  constructor depends on the sum of pandas, which \<open>init_models\<close> uses.
\<close>

definition MultiModel_init ::
  "utils \<Rightarrow> filesystem \<Rightarrow> (real list \<Rightarrow> real) \<Rightarrow> string \<Rightarrow> int \<Rightarrow> string
     \<Rightarrow> MultiModel io" where
  "MultiModel_init U fs pandas_sum input_metric window_size_arg aggregation_function_arg =
     bind_io (pure_io (check_and_set_metric (fresh_self U window_size_arg) input_metric)) (\<lambda>self.
     bind_io (set_output_folder U fs self) (\<lambda>self.
     bind_io (init_models pandas_sum fs self) (\<lambda>self.
     compute_windowed_aggregation (self\<lparr>computed_data := []\<rparr>))))"

subsection \<open>\<^verbatim>\<open>get_y_lim\<close> (lines 186-187)\<close>

text \<open>
  The builtin \<^verbatim>\<open>max\<close> of a list raises on the empty list; otherwise it walks the list
  and keeps the first of the largest elements.
\<close>

fun py_max :: "real list \<Rightarrow> error + real" where
  "py_max [] = Inl ValueError_max_empty"
| "py_max (x # xs) = Inr (fold (\<lambda>y m. if m < y then y else m) xs x)"

text \<open>\<^verbatim>\<open>[max(model) for model in self.computed_data]\<close>: the first exception ends it.\<close>

fun max_each :: "real list list \<Rightarrow> error + real list" where
  "max_each [] = Inr []"
| "max_each (model # rest) =
     (case py_max model of
        Inl e \<Rightarrow> Inl e
      | Inr m \<Rightarrow> (case max_each rest of Inl e \<Rightarrow> Inl e | Inr ms \<Rightarrow> Inr (m # ms)))"

definition get_y_lim :: "MultiModel \<Rightarrow> error + real" where
  "get_y_lim self =
     (case max_each (computed_data self) of
        Inl e \<Rightarrow> Inl e
      | Inr ms \<Rightarrow> (case py_max ms of Inl e \<Rightarrow> Inl e | Inr m \<Rightarrow> Inr (m * 1.1)))"

subsection \<open>Reordering the rows of a table\<close>

text \<open>
  The table whose row \<open>j\<close> is row \<open>p ! j\<close> of \<open>df\<close>: every column is reordered by the
  same list of row numbers. When \<open>p\<close> is a permutation of the row numbers, this
  is \<open>df\<close> with its rows permuted.
\<close>

fun permute_column :: "nat list \<Rightarrow> column \<Rightarrow> column" where
  "permute_column p (NumCol xs) = NumCol (map (\<lambda>i. xs ! i) p)"
| "permute_column p (ObjCol xs) = ObjCol (map (\<lambda>i. xs ! i) p)"

definition permute_rows :: "nat list \<Rightarrow> dataframe \<Rightarrow> dataframe" where
  "permute_rows p df = map (\<lambda>(name, c). (name, permute_column p c)) df"

fun column_length :: "column \<Rightarrow> nat" where
  "column_length (NumCol xs) = length xs"
| "column_length (ObjCol xs) = length xs"

text \<open>A frame of \<open>n\<close> rows: every column has \<open>n\<close> cells.\<close>

definition frame_rows :: "nat \<Rightarrow> dataframe \<Rightarrow> bool" where
  "frame_rows n df = list_all (\<lambda>(name, c). column_length c = n) df"

subsection \<open>A concrete installation\<close>

text \<open>
  Two runs under \<^verbatim>\<open>./raw-output\<close>: run \<^verbatim>\<open>A\<close> has two hosts drawing 10 and 20 at each
  of the timestamps 0, 1, 2, and run \<^verbatim>\<open>B\<close> has one host drawing 5, 15, 25.
\<close>

definition example_utils :: utils where
  "example_utils =
     \<lparr>RAW_OUTPUT_FOLDER_PATH = ''raw-output'',
      ENERGY_ANALYSIS_FOLDER_PATH = ''analysis/power_draw'',
      EMISSIONS_ANALYSIS_FOLDER_PATH = ''analysis/carbon_emission'',
      SIMULATION_ANALYSIS_FOLDER_NAME = ''analysis'',
      ENERGY_ANALYSIS_FOLDER_NAME = ''power_draw'',
      EMISSIONS_ANALYSIS_FOLDER_NAME = ''carbon_emission''\<rparr>"

definition example_run_A :: dataframe where
  "example_run_A =
     [(''timestamp'', NumCol [0, 0, 1, 1, 2, 2]),
      (''host_id'', ObjCol [''host1'', ''host2'', ''host1'', ''host2'', ''host1'', ''host2'']),
      (''power_draw'', NumCol [10, 20, 10, 20, 10, 20])]"

definition example_run_B :: dataframe where
  "example_run_B =
     [(''timestamp'', NumCol [0, 1, 2]),
      (''host_id'', ObjCol [''host1'', ''host1'', ''host1'']),
      (''power_draw'', NumCol [5, 15, 25])]"

definition example_fs :: filesystem where
  "example_fs =
     \<lparr>fs_open_append = (\<lambda>path. None),
      fs_listdir = (\<lambda>path. if path = ''./raw-output'' then Inr [''A'', ''B'']
                            else Inl (OSError path)),
      fs_read_parquet = (\<lambda>path.
         if path = ''./raw-output/A/seed=0/host.parquet'' then Inr example_run_A
         else if path = ''./raw-output/B/seed=0/host.parquet'' then Inr example_run_B
         else Inl (OSError path))\<rparr>"

text \<open>
  A run with three hosts at one timestamp, whose metric cells are 10000000000000000, 1
  and - 10000000000000000.
\<close>

definition example_run_C :: dataframe where
  "example_run_C =
     [(''timestamp'', NumCol [0, 0, 0]),
      (''host_id'', ObjCol [''host1'', ''host2'', ''host3'']),
      (''power_draw'', NumCol [10000000000000000, 1, - 10000000000000000])]"

section \<open>Properties of the windowed reduction\<close>

lemma div_pred_succ:
  fixes n w :: int
  assumes "0 < w"
  shows "(n - 1) div w + 1 = - ((- n) div w)"
proof (cases "n mod w = 0")
  case True
  have "n - 1 = w * (n div w - 1) + (w - 1)"
    using True by (simp add: algebra_simps) (metis mult_div_mod_eq add.right_neutral)
  then have "(n - 1) div w = n div w - 1"
    using assms by (intro int_div_pos_eq[where r = "w - 1"]) auto
  then show ?thesis using True assms by (simp add: zdiv_zminus1_eq_if)
next
  case False
  have r: "0 < n mod w" using False assms
    by (metis less_le pos_mod_sign)
  have "n - 1 = w * (n div w) + (n mod w - 1)"
    by (simp add: algebra_simps)
  moreover have "n mod w - 1 < w"
    using pos_mod_bound[OF assms, of n] by linarith
  ultimately have "(n - 1) div w = n div w"
    using assms r by (intro int_div_pos_eq[where r = "n mod w - 1"]) auto
  then show ?thesis using False assms by (simp add: zdiv_zminus1_eq_if)
qed

lemma ceil_range: "0 < w \<Longrightarrow> int (range_length 0 (int n) w) = \<lceil>real n / real_of_int w\<rceil>"
proof -
  assume w: "0 < w"
  have "\<lceil>real n / real_of_int w\<rceil> = - ((- int n) div w)"
    using ceiling_divide_eq_div[of "int n" w] by simp
  also have "\<dots> = (int n - 1) div w + 1" using div_pred_succ[OF w] by simp
  finally have c: "\<lceil>real n / real_of_int w\<rceil> = (int n - 1) div w + 1" .
  show ?thesis
  proof (cases "n = 0")
    case True then show ?thesis using w by (simp add: range_length_def)
  next
    case False
    then have "0 \<le> (int n - 1) div w" using w by (simp add: pos_imp_zdiv_nonneg_iff)
    then show ?thesis using False w c by (simp add: range_length_def)
  qed
qed

lemma chunk_take_drop: "0 < w \<Longrightarrow> chunk xs w (int k * w) = take (nat w) (drop (k * nat w) xs)"
proof -
  assume w: "0 < w"
  have kw: "int k * w = int (k * nat w)" using w by simp
  have kw2: "int k * w + w = int (k * nat w + nat w)" using w by simp
  have nn: "\<not> int k * w < 0" "\<not> int k * w + w < 0" using w by (simp_all add: kw kw2 del: of_nat_mult of_nat_add)
  have l: "slice_bound (int (length xs)) (int k * w) = min (k * nat w) (length xs)"
    unfolding slice_bound_def using nn(1) by (simp only: kw if_False nat_int flip: of_nat_min)
  have h: "slice_bound (int (length xs)) (int k * w + w) = min (k * nat w + nat w) (length xs)"
    unfolding slice_bound_def using nn(2) by (simp only: kw2 if_False nat_int flip: of_nat_min)
  show ?thesis
    unfolding chunk_def py_slice_def Let_def l h
    by (cases "k * nat w \<le> length xs") (auto simp: min_def)
qed

lemma concat_chunks: "concat (map (\<lambda>k. take W (drop (k * W) xs)) [0..<N]) = take (N * W) xs"
proof (induction N)
  case 0 show ?case by simp
next
  case (Suc N)
  have "take (N * W + W) xs = take (N * W) xs @ take W (drop (N * W) xs)"
    by (rule take_add)
  then show ?case using Suc by (simp add: add.commute)
qed


lemma div_mult_bounds:
  fixes a w :: int
  assumes "0 < w"
  shows "a div w * w \<le> a" and "a < (a div w + 1) * w"
proof -
  have e: "a div w * w + a mod w = a" by simp
  have m: "0 \<le> a mod w" "a mod w < w" using assms by simp_all
  show "a div w * w \<le> a" using e m by linarith
  have "(a div w + 1) * w = a div w * w + w" by (simp add: algebra_simps)
  then show "a < (a div w + 1) * w" using e m by linarith
qed

lemma chunk_nonempty:
  assumes "0 < w" "k < range_length 0 (int (length xs)) w"
  shows "chunk xs w (int k * w) \<noteq> []"
proof -
  have n: "length xs \<noteq> 0" using assms by (auto simp: range_length_def)
  have "int k < (int (length xs) - 1) div w + 1"
    using assms n by (simp add: range_length_def split: if_splits)
  then have "int k \<le> (int (length xs) - 1) div w" by simp
  then have "int k * w \<le> (int (length xs) - 1) div w * w"
    using assms(1) by (simp add: mult_right_mono)
  also have "\<dots> \<le> int (length xs) - 1"
    using assms(1) by (rule div_mult_bounds(1))
  finally have "int k * w < int (length xs)" by simp
  then have "int (k * nat w) < int (length xs)" using assms(1) by simp
  then have "k * nat w < length xs" by (simp only: of_nat_less_iff)
  then show ?thesis using assms(1) by (simp add: chunk_take_drop)
qed

lemma range_length_covers:
  assumes "0 < w"
  shows "length xs \<le> range_length 0 (int (length xs)) w * nat w"
proof (cases "length xs = 0")
  case True then show ?thesis by simp
next
  case False
  have nn: "0 \<le> (int (length xs) - 1) div w"
    using False assms by (simp add: pos_imp_zdiv_nonneg_iff)
  have "int (length xs) - 1 < ((int (length xs) - 1) div w + 1) * w"
    using assms by (rule div_mult_bounds(2))
  also have "\<dots> = int (range_length 0 (int (length xs)) w * nat w)"
    using False assms nn by (simp add: range_length_def)
  finally have "int (length xs) \<le> int (range_length 0 (int (length xs)) w * nat w)"
    by linarith
  then show ?thesis by (simp only: of_nat_le_iff)
qed

lemma mean_of_chunks_pos:
  "0 < w \<Longrightarrow> mean_of_chunks xs w =
     Inr (map (\<lambda>k. np_mean (chunk xs w (int k * w))) [0..<range_length 0 (int (length xs)) w])"
  by (simp add: mean_of_chunks_def py_range_def comp_def)

text \<open>
  Claim C1. For every series and every positive window size, \<open>mean_of_chunks\<close> returns
  a list whose length is the ceiling of the length of the series over the window size;
  on the empty series it returns the empty list.
\<close>

theorem mean_of_chunks_length:
  assumes "0 < w"
  shows "(\<exists>ys. mean_of_chunks xs w = Inr ys \<and> int (length ys) = \<lceil>real (length xs) / real_of_int w\<rceil>)
    \<and> mean_of_chunks [] w = Inr []"
proof
  show "\<exists>ys. mean_of_chunks xs w = Inr ys \<and> int (length ys) = \<lceil>real (length xs) / real_of_int w\<rceil>"
    using assms by (simp add: mean_of_chunks_pos ceil_range)
  show "mean_of_chunks [] w = Inr []"
    using assms by (simp add: mean_of_chunks_pos range_length_def)
qed

theorem mean_of_chunks_length_witness:
  "(0::int) < 2 \<and> mean_of_chunks [5, 15, 25] 2 = Inr [10, 25]
   \<and> (\<exists>ys. mean_of_chunks [5, 15, 25] 2 = Inr ys \<and> int (length ys) = \<lceil>real (length [5, 15, 25 :: real]) / real_of_int 2\<rceil>)
   \<and> mean_of_chunks [] 2 = Inr []"
proof -
  have "mean_of_chunks [5, 15, 25] 2 = Inr [10, 25]"
    by (simp add: mean_of_chunks_def py_range_def range_length_def chunk_def py_slice_def
        slice_bound_def np_mean_def upt_rec)
  then show ?thesis
    using mean_of_chunks_length[of 2 "[5, 15, 25]"] by simp
qed


lemma range_length_nat:
  assumes "0 < w"
  shows "range_length 0 (int n) w = (if n = 0 then 0 else (n - 1) div nat w + 1)"
proof (cases "n = 0")
  case True then show ?thesis by (simp add: range_length_def)
next
  case False
  have "(int n - 1) div w = int (n - 1) div int (nat w)"
    using False assms by simp
  also have "\<dots> = int ((n - 1) div nat w)" by (simp only: zdiv_int)
  finally have "nat ((int n - 1) div w + 1) = (n - 1) div nat w + 1" by simp
  then show ?thesis using False assms by (simp add: range_length_def)
qed

lemma full_chunk:
  assumes "0 < W" "Suc k < (if n = 0 then 0 else (n - 1) div W + 1)"
  shows "k * W + W \<le> n"
proof -
  have n: "n \<noteq> 0" using assms(2) by (auto split: if_splits)
  have "Suc k \<le> (n - 1) div W" using assms(2) n by simp
  then have "Suc k * W \<le> (n - 1) div W * W" by (rule mult_le_mono1)
  also have "\<dots> \<le> n - 1" by simp
  finally show ?thesis by simp
qed

lemma last_chunk_length:
  fixes n W :: nat
  assumes "0 < W" "0 < n"
  shows "min W (n - (n - 1) div W * W) = (if n mod W = 0 then W else n mod W)"
proof -
  have e: "(n - 1) div W * W + (n - 1) mod W = n - 1" by simp
  have b: "(n - 1) mod W < W" using assms(1) by simp
  have "n - (n - 1) div W * W = Suc ((n - 1) mod W)" using e assms(2) by linarith
  moreover have "n mod W = (if Suc ((n - 1) mod W) = W then 0 else Suc ((n - 1) mod W))"
    using mod_Suc[of "n - 1" W] assms(2) by simp
  ultimately show ?thesis using b by (auto simp: min_def)
qed

text \<open>
  Claim C2. For a positive window size the values are cut into consecutive chunks that
  together are the series again (\<open>concat cs = xs\<close>): chunk \<open>k\<close> starts at position
  \<open>k * window_size\<close>, every chunk but the last has exactly \<open>window_size\<close> elements, the
  last one has the remainder (or a full window when the length divides evenly), no chunk
  is empty, and element \<open>k\<close> of the result is the arithmetic mean of chunk \<open>k\<close>: its
  sum over its length. The witness has a chunk \<open>[1, 2, 9]\<close> whose mean is 4 and whose
  median is 2.
\<close>

theorem mean_of_chunks_partition:
  assumes "0 < w"
  shows "\<exists>cs. concat cs = xs
     \<and> (\<forall>k < length cs. cs ! k = take (nat w) (drop (k * nat w) xs))
     \<and> (\<forall>k. Suc k < length cs \<longrightarrow> length (cs ! k) = nat w)
     \<and> (xs \<noteq> [] \<longrightarrow> length (last cs) =
            (if length xs mod nat w = 0 then nat w else length xs mod nat w))
     \<and> (\<forall>c \<in> set cs. c \<noteq> [])
     \<and> mean_of_chunks xs w = Inr (map (\<lambda>c. sum_list c / real (length c)) cs)"
proof -
  define W where "W = nat w"
  define N where "N = range_length 0 (int (length xs)) w"
  define cs where "cs = map (\<lambda>k. take W (drop (k * W) xs)) [0..<N]"
  have W: "0 < W" using assms by (simp add: W_def)
  have N: "N = (if length xs = 0 then 0 else (length xs - 1) div W + 1)"
    unfolding N_def W_def by (rule range_length_nat[OF assms])
  have len: "length cs = N" by (simp add: cs_def)
  have nth: "cs ! k = take W (drop (k * W) xs)" if "k < N" for k
    using that by (simp add: cs_def)
  have "length xs \<le> N * W"
    unfolding N_def W_def by (rule range_length_covers[OF assms])
  then have c1: "concat cs = xs" by (simp add: cs_def concat_chunks)
  have c3: "length (cs ! k) = W" if "Suc k < length cs" for k
  proof -
    have "k * W + W \<le> length xs" using full_chunk[OF W] that by (simp add: len N)
    then show ?thesis using that by (simp add: nth len)
  qed
  have c4: "length (last cs) = (if length xs mod W = 0 then W else length xs mod W)"
    if "xs \<noteq> []"
  proof -
    have N1: "N = (length xs - 1) div W + 1" using that by (simp add: N)
    then have "cs \<noteq> []" using len by auto
    then have "last cs = cs ! (N - 1)" by (simp add: last_conv_nth len)
    also have "\<dots> = take W (drop ((length xs - 1) div W * W) xs)"
      using N1 by (simp add: nth)
    finally have "length (last cs) = min W (length xs - (length xs - 1) div W * W)"
      by (simp add: min.commute)
    then show ?thesis using last_chunk_length[OF W, of "length xs"] that by simp
  qed
  have c5: "c \<noteq> []" if cin: "c \<in> set cs" for c
  proof -
    obtain k where k: "k < N" "c = take W (drop (k * W) xs)"
      using cin by (auto simp: cs_def)
    then have "c = chunk xs w (int k * w)"
      by (simp add: chunk_take_drop[OF assms] W_def)
    then show ?thesis using chunk_nonempty[OF assms] k(1) by (simp add: N_def)
  qed
  have c6: "mean_of_chunks xs w = Inr (map (\<lambda>c. sum_list c / real (length c)) cs)"
    using assms
    by (simp add: mean_of_chunks_pos cs_def N_def W_def np_mean_def chunk_take_drop comp_def)
  have c2: "\<forall>k < length cs. cs ! k = take W (drop (k * W) xs)"
    using nth by (simp add: len)
  show ?thesis
    using c1 c2 c3 c4 c5 c6 unfolding W_def by (intro exI[of _ cs]) simp
qed

theorem mean_of_chunks_partition_witness:
  "(0::int) < 3
   \<and> mean_of_chunks [1, 2, 9, 4] 3 = Inr [4, 4]
   \<and> (\<exists>cs. concat cs = [1, 2, 9, 4 :: real]
     \<and> (\<forall>k < length cs. cs ! k = take (nat 3) (drop (k * nat 3) [1, 2, 9, 4]))
     \<and> (\<forall>k. Suc k < length cs \<longrightarrow> length (cs ! k) = nat 3)
     \<and> ([1, 2, 9, 4 :: real] \<noteq> [] \<longrightarrow> length (last cs) =
            (if length [1, 2, 9, 4 :: real] mod nat 3 = 0 then nat 3
             else length [1, 2, 9, 4 :: real] mod nat 3))
     \<and> (\<forall>c \<in> set cs. c \<noteq> [])
     \<and> mean_of_chunks [1, 2, 9, 4] 3 = Inr (map (\<lambda>c. sum_list c / real (length c)) cs))"
proof -
  have "mean_of_chunks [1, 2, 9, 4] 3 = Inr [4, 4]"
    by (simp add: mean_of_chunks_def py_range_def range_length_def chunk_def py_slice_def
        slice_bound_def np_mean_def upt_rec)
  then show ?thesis
    using mean_of_chunks_partition[of 3 "[1, 2, 9, 4]"] by simp
qed

text \<open>
  Claim C3, as the program has it. \<open>mean_of_chunks\<close> does not check the window size. For
  the window size zero \<^verbatim>\<open>range\<close> raises its \<^verbatim>\<open>ValueError\<close>, whatever the series; for
  a negative window size \<^verbatim>\<open>range(0, len, window_size)\<close> is empty and the result is the
  empty list, with no exception.
\<close>

theorem mean_of_chunks_nonpositive:
  assumes "w \<le> 0"
  shows "mean_of_chunks xs w = (if w = 0 then Inl ValueError_range_arg3_zero else Inr [])"
  using assms by (simp add: mean_of_chunks_def py_range_def range_length_def)

theorem mean_of_chunks_nonpositive_witness:
  "(0::int) \<le> 0 \<and> mean_of_chunks [5, 15, 25] 0 = Inl ValueError_range_arg3_zero
   \<and> (- 2 :: int) \<le> 0 \<and> mean_of_chunks [5, 15, 25] (- 2) = Inr []"
  using mean_of_chunks_nonpositive[of 0 "[5, 15, 25]"]
    mean_of_chunks_nonpositive[of "- 2" "[5, 15, 25]"] by simp

text \<open>
  Claim C3 as stated fails: with the window size \<open>-1\<close> the series \<open>[1, 2, 3]\<close> is
  reduced to the empty list and nothing is raised.
\<close>

theorem mean_of_chunks_negative_counterexample:
  "(- 1 :: int) \<le> 0 \<and> mean_of_chunks [1, 2, 3] (- 1) = Inr []"
  by (simp add: mean_of_chunks_def py_range_def range_length_def)

section \<open>Properties of the metric check\<close>

text \<open>
  Claim C4. \<open>check_and_set_metric\<close> accepts exactly the strings \<^verbatim>\<open>power_draw\<close>, with
  the unit \<^verbatim>\<open>W\<close>, and \<^verbatim>\<open>carbon_emission\<close>, with the unit \<^verbatim>\<open>gCO2\<close>; on every other
  string it raises the \<^verbatim>\<open>ValueError\<close> of line 52. The comparison is that of strings:
  another case or a leading blank is another string.
\<close>

theorem check_and_set_metric_resolves:
  "check_and_set_metric self name =
     (if name = ''power_draw''
      then Inr (self\<lparr>metric := Some ''power_draw'', measure_unit := Some ''W''\<rparr>)
      else if name = ''carbon_emission''
      then Inr (self\<lparr>metric := Some ''carbon_emission'', measure_unit := Some ''gCO2''\<rparr>)
      else Inl ValueError_invalid_metric)"
  by (simp add: check_and_set_metric_def)

theorem check_and_set_metric_resolves_witness:
  "check_and_set_metric (fresh_self example_utils 2) ''power_draw''
     = Inr ((fresh_self example_utils 2)
              \<lparr>metric := Some ''power_draw'', measure_unit := Some ''W''\<rparr>)
   \<and> check_and_set_metric (fresh_self example_utils 2) ''carbon_emission''
     = Inr ((fresh_self example_utils 2)
              \<lparr>metric := Some ''carbon_emission'', measure_unit := Some ''gCO2''\<rparr>)
   \<and> check_and_set_metric (fresh_self example_utils 2) ''Power_draw''
     = Inl ValueError_invalid_metric
   \<and> check_and_set_metric (fresh_self example_utils 2) '' power_draw''
     = Inl ValueError_invalid_metric
   \<and> check_and_set_metric (fresh_self example_utils 2) ''temperature''
     = Inl ValueError_invalid_metric
   \<and> check_and_set_metric (fresh_self example_utils 2) [] = Inl ValueError_invalid_metric"
  using check_and_set_metric_resolves[of "fresh_self example_utils 2" "''power_draw''"]
    check_and_set_metric_resolves[of "fresh_self example_utils 2" "''carbon_emission''"]
    check_and_set_metric_resolves[of "fresh_self example_utils 2" "''Power_draw''"]
    check_and_set_metric_resolves[of "fresh_self example_utils 2" "'' power_draw''"]
    check_and_set_metric_resolves[of "fresh_self example_utils 2" "''temperature''"]
    check_and_set_metric_resolves[of "fresh_self example_utils 2" "[]"]
  by simp

section \<open>Properties of the upper bound of the y axis\<close>

lemma py_max_Max: "py_max (x # xs) = Inr (Max (set (x # xs)))"
proof -
  have "(\<lambda>y m. if m < y then y else m) = (max :: real \<Rightarrow> real \<Rightarrow> real)"
    by (auto simp: fun_eq_iff max_def)
  then have "fold (\<lambda>y m. if m < y then y else m) xs x = fold max xs x" by simp
  also have "\<dots> = Max (set (x # xs))" by (rule Max.set_eq_fold[symmetric])
  finally show ?thesis by (simp del: set_simps)
qed

lemma py_max_nonempty: "xs \<noteq> [] \<Longrightarrow> py_max xs = Inr (Max (set xs))"
  using py_max_Max by (cases xs) simp_all

lemma max_each_nonempty:
  "\<forall>s \<in> set cd. s \<noteq> [] \<Longrightarrow> max_each cd = Inr (map (\<lambda>s. Max (set s)) cd)"
  by (induction cd) (simp_all add: py_max_nonempty)

lemma max_each_empty_series: "[] \<in> set cd \<Longrightarrow> max_each cd = Inl ValueError_max_empty"
proof (induction cd)
  case Nil then show ?case by simp
next
  case (Cons s cd)
  show ?case
  proof (cases s)
    case Nil then show ?thesis by simp
  next
    case (Cons x xs)
    then have "[] \<in> set cd" using Cons.prems by auto
    then show ?thesis using Cons.IH by (simp add: py_max_nonempty Cons)
  qed
qed

text \<open>
  Claim C6. When the collection of reduced series is not empty, none of the series is
  empty, and \<open>m\<close> is the largest of all the window means, \<open>get_y_lim\<close> returns
  \<open>m * 1.1\<close>.
\<close>

theorem get_y_lim_scaled_maximum:
  assumes "computed_data self \<noteq> []"
    and "\<forall>s \<in> set (computed_data self). s \<noteq> []"
    and "m \<in> set (concat (computed_data self))"
    and "\<forall>x \<in> set (concat (computed_data self)). x \<le> m"
  shows "get_y_lim self = Inr (m * 1.1)"
proof -
  let ?cd = "computed_data self"
  let ?ms = "map (\<lambda>s. Max (set s)) ?cd"
  have ms: "?ms \<noteq> []" using assms(1) by simp
  obtain s where s: "s \<in> set ?cd" "m \<in> set s" using assms(3) by auto
  have "Max (set s) = m"
    using s assms(4) by (intro Max_eqI) auto
  then have mem: "m \<in> set ?ms" using s(1) by force
  have ub: "y \<le> m" if y: "y \<in> set ?ms" for y
  proof -
    obtain t where t: "t \<in> set ?cd" "y = Max (set t)" using y by auto
    then have "t \<noteq> []" using assms(2) by simp
    then have "Max (set t) \<in> set t" by (intro Max_in) simp_all
    then show ?thesis using t assms(4) by auto
  qed
  have "Max (set ?ms) = m" using mem ub by (intro Max_eqI) simp_all
  then have "py_max ?ms = Inr m" using ms by (simp add: py_max_nonempty del: set_map)
  then show ?thesis
    using max_each_nonempty[OF assms(2)] by (simp add: get_y_lim_def)
qed

theorem get_y_lim_scaled_maximum_witness:
  "get_y_lim ((fresh_self example_utils 2)\<lparr>computed_data := [[30, 30], [10, 25]]\<rparr>) = Inr 33"
  using get_y_lim_scaled_maximum[of "(fresh_self example_utils 2)\<lparr>computed_data := [[30, 30], [10, 25]]\<rparr>" 30]
  by simp

text \<open>
  Claim C7, as the program has it. \<open>get_y_lim\<close> does not check its data. When the
  collection holds no series, or only empty ones, it returns no number, so in particular
  not 0: it ends with the \<^verbatim>\<open>ValueError\<close> that the builtin \<^verbatim>\<open>max\<close> raises on an empty
  sequence, which is not an exception that the program raises itself.
\<close>

theorem get_y_lim_all_empty:
  assumes "\<forall>s \<in> set (computed_data self). s = []"
  shows "get_y_lim self = Inl ValueError_max_empty \<and> \<not> raised_by_program ValueError_max_empty"
proof (cases "computed_data self")
  case Nil
  then show ?thesis by (simp add: get_y_lim_def)
next
  case (Cons s cd)
  then have "[] \<in> set (computed_data self)" using assms by auto
  then show ?thesis by (simp add: get_y_lim_def max_each_empty_series)
qed

theorem get_y_lim_all_empty_witness:
  "get_y_lim ((fresh_self example_utils 2)\<lparr>computed_data := [[], [], []]\<rparr>)
     = Inl ValueError_max_empty
   \<and> get_y_lim (fresh_self example_utils 2) = Inl ValueError_max_empty"
  using get_y_lim_all_empty[of "(fresh_self example_utils 2)\<lparr>computed_data := [[], [], []]\<rparr>"]
    get_y_lim_all_empty[of "fresh_self example_utils 2"]
  by (simp add: fresh_self_def)

text \<open>
  Claim C7 as stated fails: on two empty series the failure is the exception of the
  builtin \<^verbatim>\<open>max\<close>, which no \<^verbatim>\<open>raise\<close> statement of the program produces; the program has
  no error of its own for an empty data set.
\<close>

theorem get_y_lim_builtin_error_counterexample:
  "get_y_lim ((fresh_self example_utils 2)\<lparr>computed_data := [[], []]\<rparr>)
     = Inl ValueError_max_empty
   \<and> \<not> raised_by_program ValueError_max_empty"
  by (simp add: get_y_lim_def)

section \<open>Properties of the aggregation of one run\<close>

lemma frame_rows_select:
  "frame_rows n df \<Longrightarrow> map_of (select_dtypes_number df) k = Some xs \<Longrightarrow> length xs = n"
  by (induction df rule: select_dtypes_number.induct)
     (auto simp: frame_rows_def split: if_splits)

lemma aggregate_returns:
  "map_of (select_dtypes_number df) ''timestamp'' = Some ts \<Longrightarrow>
   map_of (select_dtypes_number df) m = Some vs \<Longrightarrow>
   aggregate K df m = Inr (groupby_sum K ts vs)"
  by (simp add: aggregate_def)




lemma groupby_sum_keys:
  assumes "length ts = length vs"
  shows "map fst (groupby_sum K ts vs) = sort (remdups ts)"
  using assms by (simp add: groupby_sum_def comp_def)




lemma select_permute_rows:
  "select_dtypes_number (permute_rows p df)
   = map (\<lambda>(name, xs). (name, map (\<lambda>i. xs ! i) p)) (select_dtypes_number df)"
  by (induction df rule: select_dtypes_number.induct) (simp_all add: permute_rows_def)

lemma map_of_select_permute_rows:
  "map_of (select_dtypes_number (permute_rows p df)) k
   = map_option (\<lambda>xs. map (\<lambda>i. xs ! i) p) (map_of (select_dtypes_number df) k)"
  unfolding select_permute_rows by (simp add: map_of_map)

lemma mset_permute:
  assumes "mset p = mset [0..<length xs]"
  shows "mset (map (\<lambda>i. xs ! i) p) = mset xs"
proof -
  have "mset (map (\<lambda>i. xs ! i) p) = image_mset (\<lambda>i. xs ! i) (mset p)" by simp
  also have "\<dots> = mset (map (\<lambda>i. xs ! i) [0..<length xs])" unfolding assms by simp
  also have "\<dots> = mset xs" by (simp only: map_nth)
  finally show ?thesis .
qed

lemma zip_permute:
  assumes "length ts = length vs" "set p \<subseteq> {0..<length ts}"
  shows "zip (map (\<lambda>i. ts ! i) p) (map (\<lambda>i. vs ! i) p) = map (\<lambda>i. zip ts vs ! i) p"
  using assms by (induction p) simp_all

lemma groupby_sum_mset:
  assumes "mset (zip ts vs) = mset (zip ts' vs')"
    and "\<forall>xs ys. mset xs = mset ys \<longrightarrow> K xs = K ys"
  shows "groupby_sum K ts vs = groupby_sum K ts' vs'"
proof -
  let ?r = "zip ts vs" and ?r' = "zip ts' vs'"
  have "set (map fst ?r) = set (map fst ?r')"
    using assms(1) by (metis mset_eq_setD set_map)
  then have keys: "sort (remdups (map fst ?r)) = sort (remdups (map fst ?r'))"
    by (simp only: sorted_list_of_set_sort_remdups[symmetric])
  have "K (map snd (filter P ?r)) = K (map snd (filter P ?r'))" for P
  proof -
    have "mset (map snd (filter P ?r)) = mset (map snd (filter P ?r'))"
      using assms(1) by (simp only: mset_map mset_filter)
    then show ?thesis using assms(2) by blast
  qed
  then show ?thesis unfolding groupby_sum_def Let_def keys by simp
qed

lemma groupby_sum_permute:
  assumes "length ts = n" "length vs = n" "mset p = mset [0..<n]"
    and "\<forall>xs ys. mset xs = mset ys \<longrightarrow> K xs = K ys"
  shows "groupby_sum K (map (\<lambda>i. ts ! i) p) (map (\<lambda>i. vs ! i) p) = groupby_sum K ts vs"
proof -
  have "set p = set [0..<n]" using assms(3) by (rule mset_eq_setD)
  then have sub: "set p \<subseteq> {0..<length ts}" using assms(1) by simp
  have z: "zip (map (\<lambda>i. ts ! i) p) (map (\<lambda>i. vs ! i) p) = map (\<lambda>i. zip ts vs ! i) p"
    using assms(1,2) sub by (intro zip_permute) simp_all
  have "mset (map (\<lambda>i. zip ts vs ! i) p) = mset (zip ts vs)"
    using assms(1,2,3) by (intro mset_permute) simp
  then have "mset (zip (map (\<lambda>i. ts ! i) p) (map (\<lambda>i. vs ! i) p)) = mset (zip ts vs)"
    unfolding z .
  then show ?thesis using assms(4) by (rule groupby_sum_mset)
qed

lemma groupby_sum_permute_keys:
  assumes "length ts = n" "length vs = n" "mset p = mset [0..<n]"
  shows "map fst (groupby_sum K (map (\<lambda>i. ts ! i) p) (map (\<lambda>i. vs ! i) p))
         = map fst (groupby_sum K ts vs)"
proof -
  have "mset (map (\<lambda>i. ts ! i) p) = mset ts"
    using assms(1,3) by (intro mset_permute) simp
  then have "set (map (\<lambda>i. ts ! i) p) = set ts" by (rule mset_eq_setD)
  then have "sort (remdups (map (\<lambda>i. ts ! i) p)) = sort (remdups ts)"
    by (simp only: sorted_list_of_set_sort_remdups[symmetric])
  then show ?thesis using assms(1,2) by (simp add: groupby_sum_keys)
qed

text \<open>
  Claim C8, as the program has it. For a table of \<open>n\<close> rows and every permutation \<open>p\<close> of
  its row numbers, the aggregation of the reordered table has the same timestamps as the
  aggregation of the table (or ends with the same exception), whatever the sum of pandas
  does; and the two series are equal whenever that sum does not depend on the order of
  the cells it is given, as the sum without rounding does not.
\<close>

theorem aggregate_row_order:
  assumes "frame_rows n df" and "mset p = mset [0..<n]"
  shows "map_sum id (map fst) (aggregate K (permute_rows p df) m)
           = map_sum id (map fst) (aggregate K df m)
         \<and> ((\<forall>xs ys. mset xs = mset ys \<longrightarrow> K xs = K ys) \<longrightarrow>
              aggregate K (permute_rows p df) m = aggregate K df m)"
proof (cases "map_of (select_dtypes_number df) ''timestamp''")
  case None
  then show ?thesis by (simp add: aggregate_def map_of_select_permute_rows)
next
  case ts: (Some ts)
  show ?thesis
  proof (cases "map_of (select_dtypes_number df) m")
    case None
    then show ?thesis using ts by (simp add: aggregate_def map_of_select_permute_rows)
  next
    case vs: (Some vs)
    have l: "length ts = n" "length vs = n"
      using frame_rows_select[OF assms(1)] ts vs by simp_all
    have a: "aggregate K df m = Inr (groupby_sum K ts vs)"
      using ts vs by (simp add: aggregate_def)
    have b: "aggregate K (permute_rows p df) m
             = Inr (groupby_sum K (map (\<lambda>i. ts ! i) p) (map (\<lambda>i. vs ! i) p))"
      using ts vs by (simp add: aggregate_def map_of_select_permute_rows)
    have k: "map fst (groupby_sum K (map (\<lambda>i. ts ! i) p) (map (\<lambda>i. vs ! i) p))
             = map fst (groupby_sum K ts vs)"
      using l assms(2) by (rule groupby_sum_permute_keys)
    show ?thesis
      unfolding a b
    proof (intro conjI impI)
      show "map_sum id (map fst)
              (Inr (groupby_sum K (map (\<lambda>i. ts ! i) p) (map (\<lambda>i. vs ! i) p)))
            = map_sum id (map fst) (Inr (groupby_sum K ts vs))"
        using k by simp
    next
      assume inv: "\<forall>xs ys. mset xs = mset ys \<longrightarrow> K xs = K ys"
      have "groupby_sum K (map (\<lambda>i. ts ! i) p) (map (\<lambda>i. vs ! i) p) = groupby_sum K ts vs"
        using l assms(2) inv by (rule groupby_sum_permute)
      then show "Inr (groupby_sum K (map (\<lambda>i. ts ! i) p) (map (\<lambda>i. vs ! i) p))
                 = Inr (groupby_sum K ts vs)"
        by (simp only:)
    qed
  qed
qed

theorem aggregate_row_order_witness:
  "frame_rows 6 example_run_A
   \<and> permute_rows [5, 2, 0, 3, 1, 4] example_run_A =
       [(''timestamp'', NumCol [2, 1, 0, 1, 0, 2]),
        (''host_id'', ObjCol [''host2'', ''host1'', ''host1'', ''host2'', ''host2'', ''host1'']),
        (''power_draw'', NumCol [20, 10, 10, 20, 20, 10])]
   \<and> aggregate sum_list (permute_rows [5, 2, 0, 3, 1, 4] example_run_A) ''power_draw''
       = aggregate sum_list example_run_A ''power_draw''
   \<and> aggregate sum_list example_run_A ''power_draw'' = Inr [(0, 30), (1, 30), (2, 30)]"
proof -
  have f: "frame_rows 6 example_run_A"
    by (simp add: frame_rows_def example_run_A_def)
  have u: "[0..<6] = [0, 1, 2, 3, 4, 5]"
    by (simp add: upt_rec)
  have p: "mset [5, 2, 0, 3, 1, 4] = mset [0..<6]"
    unfolding u by (simp add: add_mset_commute)
  have a: "aggregate sum_list example_run_A ''power_draw'' = Inr [(0, 30), (1, 30), (2, 30)]"
    by (simp add: aggregate_def example_run_A_def groupby_sum_def)
  have q: "permute_rows [5, 2, 0, 3, 1, 4] example_run_A =
       [(''timestamp'', NumCol [2, 1, 0, 1, 0, 2]),
        (''host_id'', ObjCol [''host2'', ''host1'', ''host1'', ''host2'', ''host2'', ''host1'']),
        (''power_draw'', NumCol [20, 10, 10, 20, 20, 10])]"
    by (simp add: permute_rows_def example_run_A_def)
  have k: "\<forall>xs ys :: real list. mset xs = mset ys \<longrightarrow> sum_list xs = sum_list ys"
    by (metis sum_mset_sum_list)
  have "aggregate sum_list (permute_rows [5, 2, 0, 3, 1, 4] example_run_A) ''power_draw''
       = aggregate sum_list example_run_A ''power_draw''"
    using aggregate_row_order[OF f p, of sum_list "''power_draw''"] k by blast
  then show ?thesis using f a q by simp
qed

lemma floor_log2_eq:
  assumes "2 powr of_int e \<le> \<bar>x\<bar>" "\<bar>x\<bar> < 2 powr of_int (e + 1)"
  shows "\<lfloor>log 2 \<bar>x\<bar>\<rfloor> = e"
proof -
  have pos: "0 < \<bar>x\<bar>" using assms(1) by (smt (verit) powr_gt_zero)
  have "of_int e \<le> log 2 \<bar>x\<bar>"
    using assms(1) pos by (simp add: le_log_iff)
  moreover have "log 2 \<bar>x\<bar> < of_int (e + 1)"
    using assms(2) pos by (simp add: log_less_iff)
  ultimately show ?thesis by (simp add: floor_eq_iff)
qed

lemma f64_round_at:
  assumes "2 powr of_int e \<le> \<bar>x\<bar>" "\<bar>x\<bar> < 2 powr of_int (e + 1)"
  shows "f64_round x
         = 2 powr of_int (e - 52) * of_int (round_half_even (x / 2 powr of_int (e - 52)))"
proof -
  have "x \<noteq> 0" using assms(1) by (smt (verit) powr_gt_zero)
  then show ?thesis
    by (simp add: f64_round_def Let_def floor_log2_eq[OF assms])
qed

lemma powr_m52: "(2::real) powr - 52 = 1 / 4503599627370496"
  by (simp add: powr_minus inverse_eq_divide)

lemma f64_round_0: "f64_round 0 = 0"
  by (simp add: f64_round_def)

lemma f64_round_1: "f64_round 1 = 1"
  using f64_round_at[of 0 1] by (simp add: round_half_even_def powr_m52)

lemma f64_round_m1: "f64_round (- 1) = - 1"
  using f64_round_at[of 0 "- 1"] by (simp add: round_half_even_def powr_m52)

lemma f64_round_big: "f64_round 10000000000000000 = 10000000000000000"
  using f64_round_at[of 53 10000000000000000] by (simp add: round_half_even_def)

lemma f64_round_mbig: "f64_round (- 10000000000000000) = - 10000000000000000"
  using f64_round_at[of 53 "- 10000000000000000"] by (simp add: round_half_even_def)

lemma f64_round_big1: "f64_round 10000000000000001 = 10000000000000000"
  using f64_round_at[of 53 10000000000000001] by (simp add: round_half_even_def)

lemma f64_round_mbig1: "f64_round (- 9999999999999999) = - 10000000000000000"
  using f64_round_at[of 53 "- 9999999999999999"] by (simp add: round_half_even_def)

lemmas f64_values = f64_round_0 f64_round_1 f64_round_m1 f64_round_big f64_round_mbig
  f64_round_big1 f64_round_mbig1

lemma group_sum_f64_lost: "group_sum_f64 [10000000000000000, 1, - 10000000000000000] = 0"
  by (simp add: group_sum_f64_def kahan_step_def f64_add_def f64_sub_def f64_values)

lemma group_sum_f64_kept: "group_sum_f64 [10000000000000000, - 10000000000000000, 1] = 1"
  by (simp add: group_sum_f64_def kahan_step_def f64_add_def f64_sub_def f64_values)

text \<open>
  Claim C8 as stated fails on \<^verbatim>\<open>float64\<close> cells. Three hosts at one timestamp have the
  cells 10000000000000000, 1 and - 10000000000000000. In this order the sum of the first
  two is rounded back to 10000000000000000 (a tie, and the even neighbour wins), the
  compensation is lost when it is subtracted from the third cell and rounded in turn,
  and the sum is 0. With the last two rows exchanged the sum is 1.
\<close>

theorem aggregate_row_order_float_counterexample:
  "permute_rows [0, 2, 1] example_run_C =
     [(''timestamp'', NumCol [0, 0, 0]),
      (''host_id'', ObjCol [''host1'', ''host3'', ''host2'']),
      (''power_draw'', NumCol [10000000000000000, - 10000000000000000, 1])]
   \<and> aggregate group_sum_f64 example_run_C ''power_draw'' = Inr [(0, 0)]
   \<and> aggregate group_sum_f64 (permute_rows [0, 2, 1] example_run_C) ''power_draw''
       = Inr [(0, 1)]"
  by (simp add: permute_rows_def example_run_C_def aggregate_def groupby_sum_def
      group_sum_f64_lost group_sum_f64_kept)

section \<open>Properties of the constructor\<close>

text \<open>
  Claim C9. For every metric string other than \<^verbatim>\<open>power_draw\<close> and \<^verbatim>\<open>carbon_emission\<close> the
  constructor ends with the \<^verbatim>\<open>ValueError\<close> of line 52 and has performed no input or output
  by then: no file was opened, no directory listed, no table read, nothing printed. The
  caller gets the exception and no object. This holds for every file system \<open>fs\<close> and
  every sum \<open>K\<close> of pandas.
\<close>

theorem init_invalid_metric:
  assumes "input_metric \<noteq> ''power_draw''" and "input_metric \<noteq> ''carbon_emission''"
  shows "MultiModel_init U fs K input_metric w af = ([], Inl ValueError_invalid_metric)"
  using assms by (simp add: MultiModel_init_def check_and_set_metric_def pure_io_def bind_io_def)

theorem init_invalid_metric_witness:
  "MultiModel_init example_utils example_fs sum_list ''temperature'' 2 ''median''
     = ([], Inl ValueError_invalid_metric)"
  using init_invalid_metric[of "''temperature''" example_utils example_fs sum_list 2 "''median''"]
  by simp

lemma windowed_loop_result:
  "windowed_loop ms self = Inr mm \<Longrightarrow>
     aggregation_function mm = aggregation_function self
     \<and> window_size mm = window_size self
     \<and> aggregated_models mm = aggregated_models self
     \<and> map Inr (computed_data mm)
         = map Inr (computed_data self)
           @ map (\<lambda>model. mean_of_chunks (map snd model) (window_size self)) ms"
proof (induction ms arbitrary: self)
  case Nil
  then show ?case by simp
next
  case (Cons model rest)
  from Cons.prems obtain windowed_data where
    w: "mean_of_chunks (map snd model) (window_size self) = Inr windowed_data"
    and r: "windowed_loop rest (self\<lparr>computed_data := computed_data self @ [windowed_data]\<rparr>) = Inr mm"
    by (auto simp: Let_def split: sum.splits)
  show ?case using Cons.IH[OF r] w by simp
qed

lemma touch_result:
  "touch fs path self = (tr, Inr mm) \<Longrightarrow> mm = self"
  by (auto simp: touch_def split: option.splits)

lemma set_output_folder_result:
  "set_output_folder U fs self = (tr, Inr mm) \<Longrightarrow>
     aggregation_function mm = aggregation_function self \<and> window_size mm = window_size self
     \<and> metric mm = metric self"
  by (auto simp: set_output_folder_def split: if_splits dest!: touch_result)

lemma init_models_loop_result:
  "init_models_loop K fs folders self = (tr, Inr mm) \<Longrightarrow>
     aggregation_function mm = aggregation_function self \<and> window_size mm = window_size self
     \<and> metric mm = metric self"
proof (induction folders arbitrary: self tr)
  case Nil
  then show ?case by simp
next
  case (Cons d ds)
  from Cons.prems show ?case
    by (auto simp: Let_def split: sum.splits option.splits prod.splits dest!: Cons.IH)
qed

lemma init_models_result:
  "init_models K fs self = (tr, Inr mm) \<Longrightarrow>
     aggregation_function mm = aggregation_function self \<and> window_size mm = window_size self
     \<and> metric mm = metric self"
  by (auto simp: init_models_def split: sum.splits prod.splits dest!: init_models_loop_result)

lemma compute_windowed_aggregation_result:
  "compute_windowed_aggregation self = (tr, Inr mm) \<Longrightarrow>
     aggregation_function mm = aggregation_function self
     \<and> map Inr (computed_data mm)
         = map Inr (computed_data self)
           @ map (\<lambda>model. mean_of_chunks (map snd model) (window_size self)) (aggregated_models mm)"
  by (auto simp: compute_windowed_aggregation_def split: option.splits dest!: windowed_loop_result)

lemma bind_io_InrD:
  assumes "bind_io m f = (tr, Inr b)"
  obtains tr1 a tr2 where "m = (tr1, Inr a)" and "f a = (tr2, Inr b)"
  using assms by (auto simp: bind_io_def split: prod.splits sum.splits)

lemma init_result:
  assumes "MultiModel_init U fs K input_metric w af = (tr, Inr mm)"
  shows "aggregation_function mm = ''median''
     \<and> map Inr (computed_data mm)
         = map (\<lambda>model. mean_of_chunks (map snd model) w) (aggregated_models mm)"
proof -
  from assms obtain tr1 s1 tr2 where
    a1: "pure_io (check_and_set_metric (fresh_self U w) input_metric) = (tr1, Inr s1)"
    and b1: "bind_io (set_output_folder U fs s1) (\<lambda>self.
         bind_io (init_models K fs self) (\<lambda>self.
         compute_windowed_aggregation (self\<lparr>computed_data := []\<rparr>))) = (tr2, Inr mm)"
    unfolding MultiModel_init_def by (rule bind_io_InrD)
  from b1 obtain tr3 s2 tr4 where
    a2: "set_output_folder U fs s1 = (tr3, Inr s2)"
    and b2: "bind_io (init_models K fs s2) (\<lambda>self.
         compute_windowed_aggregation (self\<lparr>computed_data := []\<rparr>)) = (tr4, Inr mm)"
    by (rule bind_io_InrD)
  from b2 obtain tr5 s3 tr6 where
    a3: "init_models K fs s2 = (tr5, Inr s3)"
    and b3: "compute_windowed_aggregation (s3\<lparr>computed_data := []\<rparr>) = (tr6, Inr mm)"
    by (rule bind_io_InrD)
  have s1: "aggregation_function s1 = ''median''" "window_size s1 = w"
    using a1 by (auto simp: pure_io_def check_and_set_metric_def fresh_self_def split: if_splits)
  have s2: "aggregation_function s2 = ''median''" "window_size s2 = w"
    using set_output_folder_result[OF a2] s1 by simp_all
  have s3: "aggregation_function s3 = ''median''" "window_size s3 = w"
    using init_models_result[OF a3] s2 by simp_all
  show ?thesis
    using compute_windowed_aggregation_result[OF b3] s3 by simp
qed

lemma example_init:
  "MultiModel_init example_utils example_fs sum_list ''power_draw'' 2 af =
   ([Open_append ''analysis/power_draw/analysis.txt'',
     Listdir ''./raw-output'',
     Read_parquet ''./raw-output/A/seed=0/host.parquet'',
     Read_parquet ''./raw-output/B/seed=0/host.parquet'',
     Print ''Computing windowed aggregation for power_draw''],
    Inr \<lparr>measure_unit = Some ''W'', metric = Some ''power_draw'',
         raw_models = [\<lparr>host = example_run_A\<rparr>, \<lparr>host = example_run_B\<rparr>],
         aggregated_models = [[(0, 30), (1, 30), (2, 30)], [(0, 5), (1, 15), (2, 25)]],
         output_folder = Some ''analysis/power_draw'',
         input_folder = ''raw-output'', window_size = 2,
         aggregation_function = ''median'',
         computed_data = [[30, 30], [10, 25]]\<rparr>)"
proof -
  have A: "aggregate sum_list example_run_A ''power_draw'' = Inr [(0, 30), (1, 30), (2, 30)]"
    by (simp add: aggregate_def example_run_A_def groupby_sum_def)
  have B: "aggregate sum_list example_run_B ''power_draw'' = Inr [(0, 5), (1, 15), (2, 25)]"
    by (simp add: aggregate_def example_run_B_def groupby_sum_def)
  have mA: "mean_of_chunks [30, 30, 30] 2 = Inr [30, 30]"
    by (simp add: mean_of_chunks_def py_range_def range_length_def chunk_def py_slice_def
        slice_bound_def np_mean_def upt_rec)
  have mB: "mean_of_chunks [5, 15, 25] 2 = Inr [10, 25]"
    by (simp add: mean_of_chunks_def py_range_def range_length_def chunk_def py_slice_def
        slice_bound_def np_mean_def upt_rec)
  show ?thesis
    by (simp add: MultiModel_init_def fresh_self_def check_and_set_metric_def pure_io_def
        bind_io_def set_output_folder_def touch_def example_utils_def example_fs_def
        init_models_def compute_windowed_aggregation_def A B mA mB)
qed

text \<open>
  Claim C10. Two constructions that differ only in the argument
  \<^verbatim>\<open>aggregation_function\<close> have the same outcome: the same operations, and the same
  exception or the same object. Whenever an object is built, its attribute
  \<^verbatim>\<open>aggregation_function\<close> is \<^verbatim>\<open>"median"\<close> and each of its computed series is
  \<open>mean_of_chunks\<close> of the values of the aggregated series at the same position.
\<close>

theorem init_ignores_aggregation_function:
  "MultiModel_init U fs K input_metric w af1 = MultiModel_init U fs K input_metric w af2
   \<and> (\<forall>tr mm. MultiModel_init U fs K input_metric w af1 = (tr, Inr mm) \<longrightarrow>
         aggregation_function mm = ''median''
         \<and> map Inr (computed_data mm)
             = map (\<lambda>model. mean_of_chunks (map snd model) w) (aggregated_models mm))"
proof
  show "MultiModel_init U fs K input_metric w af1 = MultiModel_init U fs K input_metric w af2"
    by (simp add: MultiModel_init_def)
  show "\<forall>tr mm. MultiModel_init U fs K input_metric w af1 = (tr, Inr mm) \<longrightarrow>
         aggregation_function mm = ''median''
         \<and> map Inr (computed_data mm)
             = map (\<lambda>model. mean_of_chunks (map snd model) w) (aggregated_models mm)"
    using init_result by blast
qed

theorem init_ignores_aggregation_function_witness:
  "MultiModel_init example_utils example_fs sum_list ''power_draw'' 2 ''mean''
     = MultiModel_init example_utils example_fs sum_list ''power_draw'' 2 ''median''
   \<and> map_sum id aggregation_function
        (snd (MultiModel_init example_utils example_fs sum_list ''power_draw'' 2 ''mean''))
       = Inr ''median''
   \<and> map_sum id computed_data
        (snd (MultiModel_init example_utils example_fs sum_list ''power_draw'' 2 ''mean''))
       = Inr [[30, 30], [10, 25]]"
proof -
  have "MultiModel_init example_utils example_fs sum_list ''power_draw'' 2 ''mean''
     = MultiModel_init example_utils example_fs sum_list ''power_draw'' 2 ''median''"
    using init_ignores_aggregation_function
            [of example_utils example_fs sum_list "''power_draw''" 2 "''mean''" "''median''"]
    by (rule conjunct1)
  then show ?thesis by (simp add: example_init)
qed

end
